theory Spec2Isabelle
  imports Complex_Main
begin

section \<open>Logistics Route and Carbon Tracker: the metric helpers of \<open>Streamlit_app.py\<close>\<close>

text \<open>
  Python numbers are modelled by the rational numbers they denote (type \<open>rat\<close>), and the
  arithmetic operators by exact arithmetic on them: a Python \<open>int\<close> is a rational with
  denominator one, a finite \<open>float\<close> is the rational it stands for. The rounding that
  binary floating point adds to \<open>*\<close> and \<open>/\<close> is not part of this model, nor is overflow
  to infinity: \<open>floor\<close>, \<open>round\<close> and \<open>mod\<close> below are the mathematical ones. Every value
  that a theorem of this file computes at a concrete input is the one CPython prints there.
\<close>

subsection \<open>Constants\<close>

definition CO2_PER_KM :: rat where
  "CO2_PER_KM = 150"

definition COST_PER_KM :: rat where
  "COST_PER_KM = 8"

subsection \<open>The Python builtins the helpers call\<close>

text \<open>\<open>int(x)\<close> on a number: truncation towards zero.\<close>

definition py_int :: "rat \<Rightarrow> int" where
  "py_int x = (if 0 \<le> x then \<lfloor>x\<rfloor> else \<lceil>x\<rceil>)"

text \<open>
  \<open>round(x)\<close> with one argument: the nearest integer, a tie going to the even neighbour.
  The result is a Python \<open>int\<close>.
\<close>

definition py_round :: "rat \<Rightarrow> int" where
  "py_round x =
     (let f = \<lfloor>x\<rfloor>; d = x - of_int f
      in if d < 1 / 2 then f
         else if 1 / 2 < d then f + 1
         else if even f then f else f + 1)"

text \<open>\<open>round(x, n)\<close> with \<open>n\<close> decimal places: the same rounding at the scale \<open>10 ^ n\<close>.\<close>

definition py_round_nd :: "rat \<Rightarrow> nat \<Rightarrow> rat" where
  "py_round_nd x n = of_int (py_round (x * 10 ^ n)) / 10 ^ n"

text \<open>
  \<open>x // y\<close> and \<open>x % y\<close> for a positive divisor: the floor of the quotient, and the
  remainder that goes with it. Both helpers below divide by the literal 3600 only, so the
  \<open>ZeroDivisionError\<close> of a zero divisor cannot arise.
\<close>

definition py_floordiv :: "rat \<Rightarrow> rat \<Rightarrow> rat" where
  "py_floordiv x y = of_int \<lfloor>x / y\<rfloor>"

definition py_mod :: "rat \<Rightarrow> rat \<Rightarrow> rat" where
  "py_mod x y = x - y * of_int \<lfloor>x / y\<rfloor>"

text \<open>\<open>str(n)\<close> for an integer: its decimal digits, with a leading minus sign when negative.\<close>

definition digit_char :: "nat \<Rightarrow> char" where
  "digit_char d = ''0123456789'' ! d"

function str_nat :: "nat \<Rightarrow> string" where
  "str_nat n = (if n < 10 then [digit_char n] else str_nat (n div 10) @ [digit_char (n mod 10)])"
  by pat_completeness auto
termination
  by (relation "measure (\<lambda>n. n)") auto

declare str_nat.simps [simp del]

definition str_int :: "int \<Rightarrow> string" where
  "str_int i = (if i < 0 then ''-'' @ str_nat (nat (- i)) else str_nat (nat i))"

subsection \<open>The helper functions\<close>

text \<open>\<open>def km(meters): return round(meters / 1000, 2)\<close>\<close>

definition km :: "rat \<Rightarrow> rat" where
  "km meters = py_round_nd (meters / 1000) 2"

text \<open>
  \<open>def hmin(seconds)\<close>: \<open>h = int(seconds // 3600)\<close>, \<open>m = int(round((seconds % 3600) / 60))\<close>,
  and the f-string \<open>"{h} h {m} min"\<close>. \<open>round\<close> already returns an \<open>int\<close>, on which the
  outer \<open>int\<close> is the identity.
\<close>

definition hmin_h :: "rat \<Rightarrow> int" where
  "hmin_h seconds = py_int (py_floordiv seconds 3600)"

definition hmin_m :: "rat \<Rightarrow> int" where
  "hmin_m seconds = py_round (py_mod seconds 3600 / 60)"

definition hmin :: "rat \<Rightarrow> string" where
  "hmin seconds = str_int (hmin_h seconds) @ '' h '' @ str_int (hmin_m seconds) @ '' min''"

text \<open>\<open>def calc_metrics(distance_km)\<close>: the pair \<open>(co2, cost)\<close>.\<close>

definition calc_metrics :: "rat \<Rightarrow> int \<times> int" where
  "calc_metrics distance_km =
     (let co2 = py_int (distance_km * CO2_PER_KM);
          cost = py_int (distance_km * COST_PER_KM)
      in (co2, cost))"

section \<open>The pipeline of \<open>Streamlit_app.py\<close>: geocoding, routing, rendering\<close>

subsection \<open>Text\<close>

text \<open>
  A string is its UTF-8 byte sequence. The characters of the source outside ASCII are
  written out byte by byte.
\<close>

definition rupee :: string where
  "rupee = [CHR 0xE2, CHR 0x82, CHR 0xB9]"

definition co2_label :: string where
  "co2_label = ''CO'' @ [CHR 0xE2, CHR 0x82, CHR 0x82]"

definition bar_chart :: string where
  "bar_chart = [CHR 0xF0, CHR 0x9F, CHR 0x93, CHR 0x8A]"

definition truck :: string where
  "truck = [CHR 0xF0, CHR 0x9F, CHR 0x9A, CHR 0x9A]"

definition copyright_sign :: string where
  "copyright_sign = [CHR 0xC2, CHR 0xA9]"

definition bullet :: string where
  "bullet = [CHR 0xE2, CHR 0x80, CHR 0xA2]"

text \<open>
  \<open>str(x)\<close> of a float, as an f-string field \<open>{x}\<close> prints it: sign, integer part, a
  point and the fractional digits, \<open>.0\<close> for a whole number. This is what Python prints for
  a number with a finite decimal expansion of at most 17 fractional digits in the range of
  positional notation, which is where the functions below are evaluated.
\<close>

fun frac_digits :: "nat \<Rightarrow> rat \<Rightarrow> string" where
  "frac_digits 0 r = []"
| "frac_digits (Suc n) r =
     (if r = 0 then []
      else (let d = \<lfloor>r * 10\<rfloor> in digit_char (nat d) # frac_digits n (r * 10 - of_int d)))"

definition float_repr :: "rat \<Rightarrow> string" where
  "float_repr x =
     (let a = \<bar>x\<bar>; i = \<lfloor>a\<rfloor>; f = a - of_int i
      in (if x < 0 then ''-'' else '''') @ str_nat (nat i) @ ''.''
         @ (if f = 0 then ''0'' else frac_digits 17 f))"

text \<open>The format specification \<open>:+\<close>: a plus sign in front of a value that is not negative.\<close>

definition signed_float :: "rat \<Rightarrow> string" where
  "signed_float x = (if 0 \<le> x then ''+'' else '''') @ float_repr x"

definition signed_int :: "int \<Rightarrow> string" where
  "signed_int i = (if 0 \<le> i then ''+'' else '''') @ str_int i"

text \<open>
  \<open>requests.utils.quote\<close>, which is \<open>urllib.parse.quote\<close> with \<open>/\<close> as the only extra safe
  character: letters, digits and \<open>_.-~/\<close> stay, every other byte becomes \<open>%XX\<close>.
\<close>

definition hex_digit :: "nat \<Rightarrow> char" where
  "hex_digit d = ''0123456789ABCDEF'' ! d"

definition always_safe :: string where
  "always_safe =
     ''ABCDEFGHIJKLMNOPQRSTUVWXYZ'' @ ''abcdefghijklmnopqrstuvwxyz'' @ ''0123456789'' @ ''_.-~'' @ ''/''"

definition quote_byte :: "char \<Rightarrow> string" where
  "quote_byte c =
     (if c \<in> set always_safe then [c]
      else [CHR ''%'', hex_digit (of_char c div 16), hex_digit (of_char c mod 16)])"

definition quote :: "string \<Rightarrow> string" where
  "quote s = concat (map quote_byte s)"

subsection \<open>Constants of the pipeline\<close>

definition TILE_URL :: string where
  "TILE_URL = ''https://{s}.basemaps.cartocdn.com/light_all/{z}/{x}/{y}{r}.png''"

definition TILE_ATTR :: string where
  "TILE_ATTR = copyright_sign @ '' OpenStreetMap '' @ bullet @ '' '' @ copyright_sign @ '' CartoDB''"

definition HEADERS :: "(string \<times> string) list" where
  "HEADERS = [(''User-Agent'', ''streamlit-carbon-demo'')]"

subsection \<open>Errors, requests and the services\<close>

text \<open>
  The two exceptions the source raises itself are \<open>ValueError\<close>s with a message. Whatever
  \<open>requests.get\<close> and \<open>.json()\<close> raise (connection failure, timeout, a body that is not
  JSON) reaches the program as a \<open>RequestError\<close> with its message. \<open>str(e)\<close> of either is the
  message.
\<close>

datatype error = ValueError string | RequestError string

definition str_error :: "error \<Rightarrow> string" where
  "str_error e = (case e of ValueError msg \<Rightarrow> msg | RequestError msg \<Rightarrow> msg)"

text \<open>
  One call of \<open>requests.get\<close>: the URL, the \<open>headers\<close> argument (empty when the call
  passes none) and the \<open>timeout\<close> argument.
\<close>

record request =
  url :: string
  headers :: "(string \<times> string) list"
  timeout :: nat

text \<open>
  The bodies the two services answer with, in the shape the source reads: the search
  service a list of hits with \<open>lat\<close> and \<open>lon\<close> as strings, the routing service an object
  whose \<open>routes\<close> entry (absent: \<open>None\<close>) is a list of routes. A body of another shape,
  on which the source would raise a \<open>KeyError\<close> or \<open>TypeError\<close>, is not represented.
\<close>

record geo_hit =
  lat :: string
  lon :: string

type_synonym coordinate = "rat \<times> rat"

record route =
  distance :: rat
  duration :: rat
  geometry :: "(rat \<times> rat) list"

text \<open>
  What the program runs against: the builtin \<open>float\<close> on strings (a number, or the
  \<open>ValueError\<close> of a string that does not spell one) and the two services, each answering a
  request with a body or failing.
\<close>

record env =
  py_float :: "string \<Rightarrow> error + rat"
  nominatim :: "request \<Rightarrow> error + geo_hit list"
  osrm :: "request \<Rightarrow> error + route list option"

subsection \<open>\<open>geocode\<close>\<close>

text \<open>
  The functions that call a service take the list of requests sent so far and return it
  extended by their own, next to their result or error.
\<close>

definition geocode_request :: "string \<Rightarrow> request" where
  "geocode_request place =
     \<lparr>url = ''https://nominatim.openstreetmap.org/search?format=json&q='' @ quote place @ ''&limit=1'',
      headers = HEADERS,
      timeout = 15\<rparr>"

definition geocode :: "env \<Rightarrow> string \<Rightarrow> request list \<Rightarrow> (error + coordinate) \<times> request list" where
  "geocode e place sent =
     (let req = geocode_request place; sent' = sent @ [req]
      in case nominatim e req of
           Inl err \<Rightarrow> (Inl err, sent')
         | Inr js \<Rightarrow>
             (case js of
                [] \<Rightarrow> (Inl (ValueError (''Place not found: '' @ place)), sent')
              | hit # _ \<Rightarrow>
                  (case py_float e (lat hit) of
                     Inl err \<Rightarrow> (Inl err, sent')
                   | Inr la \<Rightarrow>
                       (case py_float e (lon hit) of
                          Inl err \<Rightarrow> (Inl err, sent')
                        | Inr lo \<Rightarrow> (Inr (la, lo), sent')))))"

subsection \<open>\<open>fetch_routes\<close>\<close>

definition fetch_routes_request :: "coordinate \<Rightarrow> coordinate \<Rightarrow> request" where
  "fetch_routes_request start end' =
     (let coords = float_repr (snd start) @ '','' @ float_repr (fst start) @ '';''
                   @ float_repr (snd end') @ '','' @ float_repr (fst end')
      in \<lparr>url = ''https://router.project-osrm.org/route/v1/driving/'' @ coords
                 @ ''?alternatives=true&overview=full&geometries=geojson'',
          headers = [],
          timeout = 20\<rparr>)"

text \<open>
  The lines after the call: \<open>if not js.get("routes"): raise ValueError(...)\<close>, then
  \<open>routes[0]\<close> and \<open>routes[1] if len(routes) > 1 else routes[0]\<close>.
\<close>

definition select_routes :: "route list option \<Rightarrow> error + route \<times> route" where
  "select_routes js =
     (case js of
        None \<Rightarrow> Inl (ValueError ''No routes found from OSRM'')
      | Some routes \<Rightarrow>
          (if routes = [] then Inl (ValueError ''No routes found from OSRM'')
           else Inr (routes ! 0, (if length routes > 1 then routes ! 1 else routes ! 0))))"

definition fetch_routes ::
  "env \<Rightarrow> coordinate \<Rightarrow> coordinate \<Rightarrow> request list \<Rightarrow> (error + route \<times> route) \<times> request list" where
  "fetch_routes e start end' sent =
     (let req = fetch_routes_request start end'; sent' = sent @ [req]
      in case osrm e req of
           Inl err \<Rightarrow> (Inl err, sent')
         | Inr js \<Rightarrow> (select_routes js, sent'))"

subsection \<open>The page\<close>

text \<open>
  The map that \<open>folium\<close> builds: its centre, zoom, tile layer, and the layers added to it
  in order.
\<close>

record style =
  color :: string
  weight :: nat
  dashArray :: "string option"

record icon =
  icon_color :: string
  icon_name :: "string option"
  icon_prefix :: "string option"

datatype layer =
    GeoJson "(rat \<times> rat) list" string style string
  | Marker coordinate string icon
  | LayerControl

record folium_map =
  location :: "rat \<times> rat"
  zoom_start :: nat
  tiles :: string
  attr :: string
  layers :: "layer list"

text \<open>
  What the script puts on the page, in order. \<open>Metric label value delta help\<close> is
  \<open>st.metric\<close>; \<open>Column n w\<close> is the element \<open>w\<close> placed in the \<open>n\<close>-th column of its row.
\<close>

datatype element =
    Title string
  | TextInput string string
  | Button string
  | StFolium folium_map nat nat
  | Markdown string
  | Metric string string "string option" "string option"
  | Success string
  | ErrorBanner string
  | Column nat element

text \<open>
  The body of \<open>try\<close> after the three calls have returned: metrics, map, and the elements
  shown. Nothing is put on the page before \<open>st_folium\<close>.
\<close>

definition render :: "coordinate \<Rightarrow> coordinate \<Rightarrow> route \<Rightarrow> route \<Rightarrow> element list" where
  "render start end' best alt =
     (let best_km = km (distance best);
          alt_km = km (distance alt);
          (best_co2, best_cost) = calc_metrics best_km;
          (alt_co2, alt_cost) = calc_metrics alt_km;
          m = \<lparr>location = ((fst start + fst end') / 2, (snd start + snd end') / 2),
               zoom_start = 10, tiles = TILE_URL, attr = TILE_ATTR,
               layers =
                 [GeoJson (geometry best) ''Old route''
                    \<lparr>color = ''red'', weight = 6, dashArray = None\<rparr>
                    (''Old: '' @ float_repr best_km @ '' km, '' @ hmin (duration best)),
                  GeoJson (geometry alt) ''Optimized route''
                    \<lparr>color = ''blue'', weight = 6, dashArray = Some ''6 6''\<rparr>
                    (''Opt: '' @ float_repr alt_km @ '' km, '' @ hmin (duration alt)),
                  Marker start ''Start''
                    \<lparr>icon_color = ''green'', icon_name = None, icon_prefix = None\<rparr>,
                  Marker end' ''End''
                    \<lparr>icon_color = ''green'', icon_name = Some ''flag-checkered'',
                     icon_prefix = Some ''fa''\<rparr>,
                  LayerControl]\<rparr>
      in [StFolium m 900 600,
          Markdown (''### '' @ bar_chart @ '' Route metrics''),
          Column 1 (Metric ''Old route'' (float_repr best_km @ '' km'') None
                      (Some (hmin (duration best)))),
          Column 1 (Metric co2_label (str_int best_co2 @ '' g'') None None),
          Column 1 (Metric ''Cost'' (rupee @ str_int best_cost) None None),
          Column 2 (Metric ''Optimized'' (float_repr alt_km @ '' km'')
                      (Some (signed_float (best_km - alt_km) @ '' km''))
                      (Some (hmin (duration alt)))),
          Column 2 (Metric co2_label (str_int alt_co2 @ '' g'')
                      (Some (signed_int (best_co2 - alt_co2) @ '' g'')) None),
          Column 2 (Metric ''Cost'' (rupee @ str_int alt_cost)
                      (Some (rupee @ signed_int (best_cost - alt_cost))) None),
          Column 3 (Success (''**'' @ co2_label @ '' saved:** '' @ str_int (best_co2 - alt_co2) @ '' g'')),
          Column 3 (Success (''**'' @ rupee @ '' saved:** '' @ str_int (best_cost - alt_cost)))])"

text \<open>
  The block under \<open>if go:\<close>: \<open>try\<close> the three calls and the rendering, and on any exception
  \<open>st.error(str(e))\<close>. The result is what is shown and the requests that were sent.
\<close>

definition run :: "env \<Rightarrow> string \<Rightarrow> string \<Rightarrow> element list \<times> request list" where
  "run e origin destination =
     (case geocode e origin [] of
        (Inl err, sent1) \<Rightarrow> ([ErrorBanner (str_error err)], sent1)
      | (Inr start, sent1) \<Rightarrow>
          (case geocode e destination sent1 of
             (Inl err, sent2) \<Rightarrow> ([ErrorBanner (str_error err)], sent2)
           | (Inr end', sent2) \<Rightarrow>
               (case fetch_routes e start end' sent2 of
                  (Inl err, sent3) \<Rightarrow> ([ErrorBanner (str_error err)], sent3)
                | (Inr (best, alt), sent3) \<Rightarrow> (render start end' best alt, sent3))))"

text \<open>
  The whole script for one rerun: the title, the two inputs and the button, then the
  block above when the button was pressed.
\<close>

definition app :: "env \<Rightarrow> string \<Rightarrow> string \<Rightarrow> bool \<Rightarrow> element list \<times> request list" where
  "app e origin destination go =
     (let top = [Title (truck @ '' Logistics Route & Carbon Tracker''),
                 Column 1 (TextInput ''Origin'' origin),
                 Column 2 (TextInput ''Destination'' destination),
                 Column 3 (Button ''Get Routes'')]
      in if go then (let (shown, sent) = run e origin destination in (top @ shown, sent))
         else (top, []))"

subsection \<open>A run of the script\<close>

text \<open>
  The scenario of the specification: the origin resolves to (28.6, 77.05), the
  destination to (28.59, 77.04), and the routing service returns two routes of 12000 m in
  1500 s and 15000 m in 1800 s.
\<close>

definition scenario_float :: "string \<Rightarrow> error + rat" where
  "scenario_float s =
     (if s = ''28.6'' then Inr (286 / 10)
      else if s = ''77.05'' then Inr (7705 / 100)
      else if s = ''28.59'' then Inr (2859 / 100)
      else if s = ''77.04'' then Inr (7704 / 100)
      else Inl (ValueError ''could not convert string to float''))"

definition scenario_env :: env where
  "scenario_env =
     \<lparr>py_float = scenario_float,
      nominatim = (\<lambda>req.
        if url req = url (geocode_request ''Uttam Nagar, Delhi'')
        then Inr [\<lparr>lat = ''28.6'', lon = ''77.05''\<rparr>]
        else if url req = url (geocode_request ''Dwarka Sector 21, Delhi'')
        then Inr [\<lparr>lat = ''28.59'', lon = ''77.04''\<rparr>]
        else Inr []),
      osrm = (\<lambda>req.
        Inr (Some [\<lparr>distance = 12000, duration = 1500, geometry = [(7705 / 100, 286 / 10), (7704 / 100, 2859 / 100)]\<rparr>,
                   \<lparr>distance = 15000, duration = 1800, geometry = [(7705 / 100, 286 / 10), (77, 2855 / 100), (7704 / 100, 2859 / 100)]\<rparr>]))\<rparr>"

text \<open>
  Two variations of it: the routing service returns the first route only, or it does not
  answer.
\<close>

definition single_route_env :: env where
  "single_route_env =
     scenario_env\<lparr>osrm := (\<lambda>req.
        Inr (Some [\<lparr>distance = 12000, duration = 1500,
                    geometry = [(7705 / 100, 286 / 10), (7704 / 100, 2859 / 100)]\<rparr>]))\<rparr>"

definition unreachable_env :: env where
  "unreachable_env = scenario_env\<lparr>osrm := (\<lambda>req. Inl (RequestError ''Read timed out.''))\<rparr>"

section \<open>Properties of the metric helpers\<close>

subsection \<open>Facts about the builtins\<close>

lemma py_int_nonneg: "0 \<le> x \<Longrightarrow> py_int x = \<lfloor>x\<rfloor>"
  by (simp add: py_int_def)







subsection \<open>Facts about \<open>hmin\<close>\<close>





subsection \<open>Claims about the metric helpers\<close>









section \<open>Properties of the pipeline\<close>

subsection \<open>Requests sent and results returned\<close>

lemma geocode_sent: "snd (geocode e place sent) = sent @ [geocode_request place]"
  by (simp add: geocode_def Let_def split: sum.splits list.splits)

lemma geocode_result: "fst (geocode e place sent) = fst (geocode e place [])"
  by (simp add: geocode_def Let_def split: sum.splits list.splits)

lemma fetch_routes_sent:
  "snd (fetch_routes e start end' sent) = sent @ [fetch_routes_request start end']"
  by (simp add: fetch_routes_def Let_def split: sum.splits)

lemma fetch_routes_result:
  "fst (fetch_routes e start end' sent) = fst (fetch_routes e start end' [])"
  by (simp add: fetch_routes_def Let_def split: sum.splits)

lemma geocode_pair:
  "fst (geocode e place []) = r \<Longrightarrow> geocode e place sent = (r, sent @ [geocode_request place])"
  using geocode_sent [of e place sent] geocode_result [of e place sent]
  by (simp add: prod_eq_iff)

lemma fetch_routes_pair:
  "fst (fetch_routes e start end' []) = r \<Longrightarrow>
   fetch_routes e start end' sent = (r, sent @ [fetch_routes_request start end'])"
  using fetch_routes_sent [of e start end' sent] fetch_routes_result [of e start end' sent]
  by (simp add: prod_eq_iff)

lemma run_origin_fails:
  assumes "fst (geocode e origin []) = Inl err"
  shows "run e origin destination = ([ErrorBanner (str_error err)], [geocode_request origin])"
proof -
  have "geocode e origin [] = (Inl err, [geocode_request origin])"
    using geocode_pair [OF assms, of "[]"] by simp
  then show ?thesis
    by (simp add: run_def)
qed

lemma run_destination_fails:
  assumes "fst (geocode e origin []) = Inr start"
    and "fst (geocode e destination []) = Inl err"
  shows "run e origin destination =
     ([ErrorBanner (str_error err)], [geocode_request origin, geocode_request destination])"
proof -
  have "geocode e origin [] = (Inr start, [geocode_request origin])"
    using geocode_pair [OF assms(1), of "[]"] by simp
  moreover have "geocode e destination [geocode_request origin]
      = (Inl err, [geocode_request origin, geocode_request destination])"
    using geocode_pair [OF assms(2), of "[geocode_request origin]"] by simp
  ultimately show ?thesis
    by (simp add: run_def)
qed

lemma run_after_geocoding:
  assumes "fst (geocode e origin []) = Inr start"
    and "fst (geocode e destination []) = Inr end'"
    and "fst (fetch_routes e start end' []) = r"
  shows "run e origin destination =
     (case r of Inl err \<Rightarrow> [ErrorBanner (str_error err)]
              | Inr (best, alt) \<Rightarrow> render start end' best alt,
      [geocode_request origin, geocode_request destination, fetch_routes_request start end'])"
proof -
  have "geocode e origin [] = (Inr start, [geocode_request origin])"
    using geocode_pair [OF assms(1), of "[]"] by simp
  moreover have "geocode e destination [geocode_request origin]
      = (Inr end', [geocode_request origin, geocode_request destination])"
    using geocode_pair [OF assms(2), of "[geocode_request origin]"] by simp
  moreover have "fetch_routes e start end' [geocode_request origin, geocode_request destination]
      = (r, [geocode_request origin, geocode_request destination,
             fetch_routes_request start end'])"
    using fetch_routes_pair [OF assms(3), of "[geocode_request origin, geocode_request destination]"]
    by simp
  ultimately show ?thesis
    by (simp add: run_def split: sum.splits prod.splits)
qed

lemma run_routing_fails:
  "fst (geocode e origin []) = Inr start \<Longrightarrow> fst (geocode e destination []) = Inr end' \<Longrightarrow>
   fst (fetch_routes e start end' []) = Inl err \<Longrightarrow>
   run e origin destination =
     ([ErrorBanner (str_error err)],
      [geocode_request origin, geocode_request destination, fetch_routes_request start end'])"
  by (simp add: run_after_geocoding)


lemma geocode_lat_lon:
  "nominatim e (geocode_request place) = Inr (hit # rest) \<Longrightarrow>
   py_float e (lat hit) = Inr la \<Longrightarrow> py_float e (lon hit) = Inr lo \<Longrightarrow>
   fst (geocode e place sent) = Inr (la, lo)"
  by (simp add: geocode_def Let_def)

subsection \<open>Facts about the three runs\<close>

lemma scenario_origin_hit:
  "nominatim scenario_env (geocode_request ''Uttam Nagar, Delhi'')
     = Inr [\<lparr>lat = ''28.6'', lon = ''77.05''\<rparr>]"
  by (simp add: scenario_env_def)

lemma scenario_destination_hit:
  "nominatim scenario_env (geocode_request ''Dwarka Sector 21, Delhi'')
     = Inr [\<lparr>lat = ''28.59'', lon = ''77.04''\<rparr>]"
  by code_simp

lemma scenario_floats:
  "py_float scenario_env ''28.6'' = Inr (286 / 10)"
  "py_float scenario_env ''77.05'' = Inr (7705 / 100)"
  "py_float scenario_env ''28.59'' = Inr (2859 / 100)"
  "py_float scenario_env ''77.04'' = Inr (7704 / 100)"
  by (simp_all add: scenario_env_def scenario_float_def)

lemma scenario_reprs:
  "float_repr (286 / 10) = ''28.6''" "float_repr (7705 / 100) = ''77.05''"
  "float_repr (2859 / 100) = ''28.59''" "float_repr (7704 / 100) = ''77.04''"
  by code_simp+

lemma scenario_geocode_origin:
  "fst (geocode scenario_env ''Uttam Nagar, Delhi'' []) = Inr (286 / 10, 7705 / 100)"
  by (simp add: geocode_lat_lon [OF scenario_origin_hit] scenario_floats)

lemma scenario_geocode_destination:
  "fst (geocode scenario_env ''Dwarka Sector 21, Delhi'' []) = Inr (2859 / 100, 7704 / 100)"
  by (simp add: geocode_lat_lon [OF scenario_destination_hit] scenario_floats)




lemma scenario_geocode_nowhere:
  "fst (geocode scenario_env ''Nowhere'' []) = Inl (ValueError ''Place not found: Nowhere'')"
proof -
  have "nominatim scenario_env (geocode_request ''Nowhere'') = Inr []"
    by code_simp
  then show ?thesis
    by (simp add: geocode_def Let_def)
qed

lemma unreachable_geocode:
  "fst (geocode unreachable_env place []) = fst (geocode scenario_env place [])"
  by (simp add: geocode_def unreachable_env_def Let_def split: sum.splits list.splits)

lemma unreachable_fetch_routes:
  "fst (fetch_routes unreachable_env start end' []) = Inl (RequestError ''Read timed out.'')"
  by (simp add: fetch_routes_def unreachable_env_def Let_def)





subsection \<open>Claims about the pipeline\<close>

text \<open>
  C3. When the routing service answers with a non-empty list of routes, \<open>fetch_routes\<close>
  returns the route at index 0 as the best one and the route at index 1 as the
  alternative when there are at least two; with exactly one route, both returned routes
  are the route at index 0.
\<close>

theorem fetch_routes_selection:
  "(osrm e (fetch_routes_request start end') = Inr (Some routes) \<and> routes \<noteq> [] \<longrightarrow>
      fst (fetch_routes e start end' sent)
        = Inr (routes ! 0, (if 2 \<le> length routes then routes ! 1 else routes ! 0)))
   \<and> (osrm e (fetch_routes_request start end') = Inr (Some routes) \<and> length routes = 1 \<longrightarrow>
      fst (fetch_routes e start end' sent) = Inr (routes ! 0, routes ! 0))"
  by (auto simp: fetch_routes_def select_routes_def Let_def)

theorem fetch_routes_selection_witness:
  "osrm scenario_env (fetch_routes_request (286 / 10, 7705 / 100) (2859 / 100, 7704 / 100))
     = Inr (Some [\<lparr>distance = 12000, duration = 1500,
                    geometry = [(7705 / 100, 286 / 10), (7704 / 100, 2859 / 100)]\<rparr>,
                  \<lparr>distance = 15000, duration = 1800,
                    geometry = [(7705 / 100, 286 / 10), (77, 2855 / 100), (7704 / 100, 2859 / 100)]\<rparr>])
   \<and> fst (fetch_routes scenario_env (286 / 10, 7705 / 100) (2859 / 100, 7704 / 100) [])
     = Inr (\<lparr>distance = 12000, duration = 1500,
              geometry = [(7705 / 100, 286 / 10), (7704 / 100, 2859 / 100)]\<rparr>,
            \<lparr>distance = 15000, duration = 1800,
              geometry = [(7705 / 100, 286 / 10), (77, 2855 / 100), (7704 / 100, 2859 / 100)]\<rparr>)
   \<and> osrm single_route_env (fetch_routes_request (286 / 10, 7705 / 100) (2859 / 100, 7704 / 100))
     = Inr (Some [\<lparr>distance = 12000, duration = 1500,
                    geometry = [(7705 / 100, 286 / 10), (7704 / 100, 2859 / 100)]\<rparr>])
   \<and> fst (fetch_routes single_route_env (286 / 10, 7705 / 100) (2859 / 100, 7704 / 100) [])
     = Inr (\<lparr>distance = 12000, duration = 1500,
              geometry = [(7705 / 100, 286 / 10), (7704 / 100, 2859 / 100)]\<rparr>,
            \<lparr>distance = 12000, duration = 1500,
              geometry = [(7705 / 100, 286 / 10), (7704 / 100, 2859 / 100)]\<rparr>)"
proof -
  let ?s = "(286 / 10, 7705 / 100) :: coordinate"
  let ?t = "(2859 / 100, 7704 / 100) :: coordinate"
  let ?r1 = "\<lparr>distance = 12000, duration = 1500,
               geometry = [(7705 / 100, 286 / 10), (7704 / 100, 2859 / 100)]\<rparr>"
  let ?r2 = "\<lparr>distance = 15000, duration = 1800,
               geometry = [(7705 / 100, 286 / 10), (77, 2855 / 100), (7704 / 100, 2859 / 100)]\<rparr>"
  have two: "osrm scenario_env (fetch_routes_request ?s ?t) = Inr (Some [?r1, ?r2])"
    by (simp add: scenario_env_def)
  have one: "osrm single_route_env (fetch_routes_request ?s ?t) = Inr (Some [?r1])"
    by (simp add: single_route_env_def)
  from fetch_routes_selection [of scenario_env ?s ?t "[?r1, ?r2]" "[]"] two
  have a: "fst (fetch_routes scenario_env ?s ?t []) = Inr (?r1, ?r2)"
    by simp
  from fetch_routes_selection [of single_route_env ?s ?t "[?r1]" "[]"] one
  have b: "fst (fetch_routes single_route_env ?s ?t []) = Inr (?r1, ?r1)"
    by simp
  from two one a b show ?thesis
    by simp
qed

text \<open>
  C4. Both outbound calls carry the custom client-identification header. The call of
  \<open>geocode\<close> does; the call of \<open>fetch_routes\<close> passes no headers at all.
\<close>

theorem fetch_routes_sends_no_header:
  "map headers (snd (geocode e place [])) = [[(''User-Agent'', ''streamlit-carbon-demo'')]]
   \<and> map headers (snd (fetch_routes e start end' [])) = [[]]"
  by (simp add: geocode_sent fetch_routes_sent geocode_request_def fetch_routes_request_def
      HEADERS_def Let_def)

text \<open>
  C5. When the search service returns an empty list, \<open>geocode\<close> fails with the
  \<open>ValueError\<close> whose message is \<open>Place not found:\<close> followed by the queried place, and
  returns no coordinate.
\<close>

theorem geocode_not_found:
  "nominatim e (geocode_request place) = Inr [] \<longrightarrow>
     (\<exists>err. geocode e place sent = (Inl err, sent @ [geocode_request place])
        \<and> err = ValueError (''Place not found: '' @ place)
        \<and> str_error err = ''Place not found: '' @ place)"
  by (simp add: geocode_def Let_def str_error_def)

theorem geocode_not_found_witness:
  "nominatim scenario_env (geocode_request ''Nowhere'') = Inr []
   \<and> geocode scenario_env ''Nowhere'' []
       = (Inl (ValueError ''Place not found: Nowhere''), [geocode_request ''Nowhere''])"
proof -
  have h: "nominatim scenario_env (geocode_request ''Nowhere'') = Inr []"
    by code_simp
  from geocode_not_found [of scenario_env "''Nowhere''" "[]"] h show ?thesis
    by simp
qed



text \<open>
  C8. When geocoding the origin, geocoding the destination or fetching the routes fails,
  the steps after it are not run (no further request is sent, and none is repeated), no
  map and no metrics are shown, and the message of the failure is shown as an error.
\<close>

theorem run_failure_aborts:
  "(fst (geocode e origin []) = Inl err \<longrightarrow>
      run e origin destination = ([ErrorBanner (str_error err)], [geocode_request origin]))
   \<and> (fst (geocode e origin []) = Inr start \<and> fst (geocode e destination []) = Inl err \<longrightarrow>
      run e origin destination
        = ([ErrorBanner (str_error err)], [geocode_request origin, geocode_request destination]))
   \<and> (fst (geocode e origin []) = Inr start \<and> fst (geocode e destination []) = Inr end'
       \<and> fst (fetch_routes e start end' []) = Inl err \<longrightarrow>
      run e origin destination
        = ([ErrorBanner (str_error err)],
           [geocode_request origin, geocode_request destination,
            fetch_routes_request start end']))"
  by (simp add: run_origin_fails run_destination_fails run_routing_fails)

theorem run_failure_aborts_witness:
  "fst (geocode scenario_env ''Nowhere'' []) = Inl (ValueError ''Place not found: Nowhere'')
   \<and> run scenario_env ''Nowhere'' ''Dwarka Sector 21, Delhi''
       = ([ErrorBanner ''Place not found: Nowhere''], [geocode_request ''Nowhere''])
   \<and> fst (geocode scenario_env ''Uttam Nagar, Delhi'' []) = Inr (286 / 10, 7705 / 100)
   \<and> run scenario_env ''Uttam Nagar, Delhi'' ''Nowhere''
       = ([ErrorBanner ''Place not found: Nowhere''],
          [geocode_request ''Uttam Nagar, Delhi'', geocode_request ''Nowhere''])
   \<and> fst (geocode unreachable_env ''Uttam Nagar, Delhi'' []) = Inr (286 / 10, 7705 / 100)
   \<and> fst (geocode unreachable_env ''Dwarka Sector 21, Delhi'' []) = Inr (2859 / 100, 7704 / 100)
   \<and> fst (fetch_routes unreachable_env (286 / 10, 7705 / 100) (2859 / 100, 7704 / 100) [])
       = Inl (RequestError ''Read timed out.'')
   \<and> run unreachable_env ''Uttam Nagar, Delhi'' ''Dwarka Sector 21, Delhi''
       = ([ErrorBanner ''Read timed out.''],
          [geocode_request ''Uttam Nagar, Delhi'', geocode_request ''Dwarka Sector 21, Delhi'',
           fetch_routes_request (286 / 10, 7705 / 100) (2859 / 100, 7704 / 100)])"
proof -
  let ?nf = "ValueError ''Place not found: Nowhere''"
  let ?to = "RequestError ''Read timed out.''"
  let ?s = "(286 / 10, 7705 / 100) :: coordinate"
  let ?t = "(2859 / 100, 7704 / 100) :: coordinate"
  have a: "run scenario_env ''Nowhere'' ''Dwarka Sector 21, Delhi''
       = ([ErrorBanner ''Place not found: Nowhere''], [geocode_request ''Nowhere''])"
    using run_failure_aborts [of scenario_env "''Nowhere''" ?nf "''Dwarka Sector 21, Delhi''"]
      scenario_geocode_nowhere
    by (simp add: str_error_def)
  have b: "run scenario_env ''Uttam Nagar, Delhi'' ''Nowhere''
       = ([ErrorBanner ''Place not found: Nowhere''],
          [geocode_request ''Uttam Nagar, Delhi'', geocode_request ''Nowhere''])"
    using run_failure_aborts [of scenario_env "''Uttam Nagar, Delhi''" ?nf "''Nowhere''" ?s]
      scenario_geocode_nowhere scenario_geocode_origin
    by (simp add: str_error_def)
  have c: "run unreachable_env ''Uttam Nagar, Delhi'' ''Dwarka Sector 21, Delhi''
       = ([ErrorBanner ''Read timed out.''],
          [geocode_request ''Uttam Nagar, Delhi'', geocode_request ''Dwarka Sector 21, Delhi'',
           fetch_routes_request ?s ?t])"
    using run_failure_aborts [of unreachable_env "''Uttam Nagar, Delhi''" ?to
        "''Dwarka Sector 21, Delhi''" ?s ?t]
      scenario_geocode_origin scenario_geocode_destination
      unreachable_geocode unreachable_fetch_routes
    by (simp add: str_error_def)
  from a b c scenario_geocode_nowhere scenario_geocode_origin scenario_geocode_destination
    unreachable_geocode unreachable_fetch_routes
  show ?thesis
    by simp
qed

text \<open>
  C9. For coordinates that \<open>geocode\<close> produced in the order latitude, longitude, the
  routing request goes to the path \<open>/route/v1/driving/{lon1},{lat1};{lon2},{lat2}\<close>:
  longitude first, then latitude, the two pairs separated by a semicolon.
\<close>

theorem routing_url_longitude_first:
  "nominatim e (geocode_request origin) = Inr (h1 # rest1)
   \<and> py_float e (lat h1) = Inr lat1 \<and> py_float e (lon h1) = Inr lon1
   \<and> nominatim e (geocode_request destination) = Inr (h2 # rest2)
   \<and> py_float e (lat h2) = Inr lat2 \<and> py_float e (lon h2) = Inr lon2 \<longrightarrow>
     fst (geocode e origin []) = Inr (lat1, lon1)
     \<and> fst (geocode e destination []) = Inr (lat2, lon2)
     \<and> map url (snd (run e origin destination))
       = [url (geocode_request origin), url (geocode_request destination),
          ''https://router.project-osrm.org'' @ ''/route/v1/driving/''
          @ float_repr lon1 @ '','' @ float_repr lat1 @ '';''
          @ float_repr lon2 @ '','' @ float_repr lat2
          @ ''?alternatives=true&overview=full&geometries=geojson'']"
proof
  assume a: "nominatim e (geocode_request origin) = Inr (h1 # rest1)
   \<and> py_float e (lat h1) = Inr lat1 \<and> py_float e (lon h1) = Inr lon1
   \<and> nominatim e (geocode_request destination) = Inr (h2 # rest2)
   \<and> py_float e (lat h2) = Inr lat2 \<and> py_float e (lon h2) = Inr lon2"
  then have g1: "fst (geocode e origin []) = Inr (lat1, lon1)"
    by (simp add: geocode_lat_lon)
  from a have g2: "fst (geocode e destination []) = Inr (lat2, lon2)"
    by (simp add: geocode_lat_lon)
  have "snd (run e origin destination)
      = [geocode_request origin, geocode_request destination,
         fetch_routes_request (lat1, lon1) (lat2, lon2)]"
    using run_after_geocoding [OF g1 g2 refl] by simp
  then have "map url (snd (run e origin destination))
       = [url (geocode_request origin), url (geocode_request destination),
          ''https://router.project-osrm.org'' @ ''/route/v1/driving/''
          @ float_repr lon1 @ '','' @ float_repr lat1 @ '';''
          @ float_repr lon2 @ '','' @ float_repr lat2
          @ ''?alternatives=true&overview=full&geometries=geojson'']"
    by (simp add: fetch_routes_request_def Let_def)
  with g1 g2 show "fst (geocode e origin []) = Inr (lat1, lon1)
     \<and> fst (geocode e destination []) = Inr (lat2, lon2)
     \<and> map url (snd (run e origin destination))
       = [url (geocode_request origin), url (geocode_request destination),
          ''https://router.project-osrm.org'' @ ''/route/v1/driving/''
          @ float_repr lon1 @ '','' @ float_repr lat1 @ '';''
          @ float_repr lon2 @ '','' @ float_repr lat2
          @ ''?alternatives=true&overview=full&geometries=geojson'']"
    by simp
qed

theorem routing_url_longitude_first_witness:
  "nominatim scenario_env (geocode_request ''Uttam Nagar, Delhi'')
     = Inr [\<lparr>lat = ''28.6'', lon = ''77.05''\<rparr>]
   \<and> py_float scenario_env ''28.6'' = Inr (286 / 10)
   \<and> py_float scenario_env ''77.05'' = Inr (7705 / 100)
   \<and> nominatim scenario_env (geocode_request ''Dwarka Sector 21, Delhi'')
     = Inr [\<lparr>lat = ''28.59'', lon = ''77.04''\<rparr>]
   \<and> py_float scenario_env ''28.59'' = Inr (2859 / 100)
   \<and> py_float scenario_env ''77.04'' = Inr (7704 / 100)
   \<and> map url (snd (run scenario_env ''Uttam Nagar, Delhi'' ''Dwarka Sector 21, Delhi''))
     = [url (geocode_request ''Uttam Nagar, Delhi''),
        url (geocode_request ''Dwarka Sector 21, Delhi''),
        ''https://router.project-osrm.org/route/v1/driving/77.05,28.6;77.04,28.59?alternatives=true&overview=full&geometries=geojson'']"
proof -
  from routing_url_longitude_first [of scenario_env "''Uttam Nagar, Delhi''"
      "\<lparr>lat = ''28.6'', lon = ''77.05''\<rparr>" "[]" "286 / 10" "7705 / 100"
      "''Dwarka Sector 21, Delhi''" "\<lparr>lat = ''28.59'', lon = ''77.04''\<rparr>" "[]"
      "2859 / 100" "7704 / 100"]
    scenario_origin_hit scenario_destination_hit scenario_floats scenario_reprs
  show ?thesis
    by simp
qed

end
